theory Spec2Isabelle
  imports
    Complex_Main
    "HOL-Library.Char_ord"
    "HOL-Library.List_Lexorder"
    "HOL-Library.Product_Lexorder"
    "HOL-Library.Sublist"
    "HOL-Library.Multiset"
begin

section \<open>The transaction table (streamlit.py, lines 9--14)\<close>

text \<open>
  The script reads a CSV ledger into a pandas frame and derives three columns. A frame
  is modelled as the list of its rows in table order.

  \<^item> A \<open>Date\<close> cell is a calendar date (year, month, day), compared componentwise from
    the left, which is chronological order. Every row has one: a row without a date
    fails both comparisons of line 22 and reaches no summary.
  \<^item> A \<open>Time\<close> cell is a time of day (hour, minute, second), or missing.
  \<^item> A \<open>Category\<close>, \<open>Receiver\<close> or \<open>Status\<close> cell is a text, or missing: \<open>read_csv\<close>
    reads an empty cell, and a cell such as \<open>NA\<close> or \<open>null\<close>, as a missing value. Missing
    is \<open>None\<close>. Texts are compared as Python compares them: by character code, a proper
    prefix first.
  \<^item> An \<open>Amount\<close> cell either reads as a number or does not;
    \<open>pd.to_numeric(..., errors='coerce')\<close> turns the second kind into NaN, which is
    \<open>None\<close>. The numbers of this model are the whole numbers. The script holds them as
    64-bit floats (as 64-bit integers when no cell is coerced), which are exact on
    whole numbers up to \<open>2 ^ 53\<close> in size; \<open>exactly_summed\<close> below says when the sums
    of a table stay in that range, so that the sums of the script are the sums of
    the model in whatever order they are added.
\<close>

type_synonym date = "nat \<times> nat \<times> nat"
type_synonym time_of_day = "nat \<times> nat \<times> nat"
type_synonym period = "nat \<times> nat"

datatype cell = Numeric int | NonNumeric string

record 'a row =
  Date :: date
  Time :: "time_of_day option"
  Amount :: 'a
  Category :: "string option"
  Receiver :: "string option"
  Status :: "string option"

record txn = "int option row" +
  DayOfWeek :: string
  Hour :: "nat option"
  Month :: period

type_synonym csv_row = "cell row"

text \<open>\<open>pd.to_numeric(df['Amount'], errors='coerce')\<close>, cell by cell (line 11).\<close>

fun to_numeric :: "cell \<Rightarrow> int option" where
  "to_numeric (Numeric a) = Some a"
| "to_numeric (NonNumeric s) = None"

text \<open>
  \<open>dt.day_name()\<close> (line 12): the weekday of a Gregorian date, by the usual
  month-offset formula (January and February count as part of the previous year).
\<close>

definition month_offset :: "nat \<Rightarrow> nat" where
  "month_offset m = [0, 3, 2, 5, 0, 3, 5, 1, 4, 6, 2, 4] ! ((m - 1) mod 12)"

definition year_offset :: "nat \<Rightarrow> nat" where
  "year_offset y = y + y div 4 - y div 100 + y div 400"

fun weekday_index :: "date \<Rightarrow> nat" where
  "weekday_index (y, m, dd) =
     (year_offset (if m < 3 then y - 1 else y) + month_offset m + dd) mod 7"

definition day_name :: "date \<Rightarrow> string" where
  "day_name d =
     [''Sunday'', ''Monday'', ''Tuesday'', ''Wednesday'', ''Thursday'', ''Friday'',
      ''Saturday''] ! weekday_index d"

text \<open>\<open>pd.to_datetime(df['Time']).dt.hour\<close> (line 13); no hour where the time is missing.\<close>

definition hour_of :: "time_of_day option \<Rightarrow> nat option" where
  "hour_of t = map_option fst t"

text \<open>\<open>dt.to_period('M')\<close> (lines 14 and 85): the year and month of a date.\<close>

fun to_period_M :: "date \<Rightarrow> period" where
  "to_period_M (y, m, dd) = (y, m)"

text \<open>Lines 10--14 on one row, and on the whole table.\<close>

definition load_row :: "csv_row \<Rightarrow> txn" where
  "load_row r =
     \<lparr>Date = Date r, Time = Time r, Amount = to_numeric (Amount r),
      Category = Category r, Receiver = Receiver r, Status = Status r,
      DayOfWeek = day_name (Date r), Hour = hour_of (Time r),
      Month = to_period_M (Date r)\<rparr>"

definition load :: "csv_row list \<Rightarrow> txn list" where
  "load rows = map load_row rows"

section \<open>The pandas operations the script uses\<close>

text \<open>
  A series is the list of its (index, value) entries in order. Summing a column skips
  NaN, and the sum of no numbers is 0.
\<close>

fun nansum :: "int option list \<Rightarrow> int" where
  "nansum [] = 0"
| "nansum (None # xs) = nansum xs"
| "nansum (Some a # xs) = a + nansum xs"

text \<open>
  \<open>groupby(key)\<close> with its defaults (\<open>sort=True\<close>, \<open>dropna=True\<close>): one group for each
  key value that occurs, the groups in ascending key order, each group holding the rows
  of that key. A row whose key is missing belongs to no group.
\<close>

definition group_keys :: "('r \<Rightarrow> 'k::linorder option) \<Rightarrow> 'r list \<Rightarrow> 'k list" where
  "group_keys key rows = sort (remdups (List.map_filter key rows))"

definition group_rows :: "('r \<Rightarrow> 'k option) \<Rightarrow> 'r list \<Rightarrow> 'k \<Rightarrow> 'r list" where
  "group_rows key rows k = filter (\<lambda>r. key r = Some k) rows"

text \<open>\<open>groupby(key)["Amount"].sum()\<close>.\<close>

definition groupby_sum ::
  "(txn \<Rightarrow> 'k::linorder option) \<Rightarrow> txn list \<Rightarrow> ('k \<times> int) list" where
  "groupby_sum key rows =
     map (\<lambda>k. (k, nansum (map Amount (group_rows key rows k)))) (group_keys key rows)"

text \<open>\<open>groupby(key).size()\<close>.\<close>

definition groupby_size ::
  "('r \<Rightarrow> 'k::linorder option) \<Rightarrow> 'r list \<Rightarrow> ('k \<times> nat) list" where
  "groupby_size key rows =
     map (\<lambda>k. (k, length (group_rows key rows k))) (group_keys key rows)"

text \<open>Selecting entries by a list of positions.\<close>

definition take_idx :: "'a list \<Rightarrow> nat list \<Rightarrow> 'a list" where
  "take_idx xs idx = map ((!) xs) idx"

text \<open>
  \<open>sort_values(ascending=False)\<close>: pandas reverses the entries, asks numpy for the
  positions that put the reversed values in ascending order (\<open>argsort\<close>, with the
  default \<open>quicksort\<close>), selects the reversed entries by these positions and reverses
  the result. How numpy orders equal values is its own business, so \<open>argsort\<close> is a
  parameter here, of which \<open>argsort_ok\<close> says what every sorting routine gives: a
  rearrangement of the positions that puts the values in ascending order.
\<close>

definition sort_values_desc ::
  "(int list \<Rightarrow> nat list) \<Rightarrow> ('k \<times> int) list \<Rightarrow> ('k \<times> int) list" where
  "sort_values_desc argsort s = rev (take_idx (rev s) (argsort (map snd (rev s))))"

definition argsort_ok :: "(int list \<Rightarrow> nat list) \<Rightarrow> bool" where
  "argsort_ok argsort =
     (\<forall>vs. mset (argsort vs) = mset [0..<length vs] \<and> sorted (take_idx vs (argsort vs)))"

text \<open>\<open>head(n)\<close>.\<close>

definition head :: "nat \<Rightarrow> 'a list \<Rightarrow> 'a list" where
  "head n s = take n s"

text \<open>\<open>isin(values)\<close> on one cell; a missing cell is in \<open>values\<close> when a missing value is.\<close>

definition isin :: "'a \<Rightarrow> 'a list \<Rightarrow> bool" where
  "isin x values = (x \<in> set values)"

section \<open>The aggregation (streamlit.py, lines 22--36 and 85)\<close>

text \<open>
  Line 22 keeps the rows inside the date range, line 26 those of the selected
  categories. The range and the selection come from the widgets and are inputs here.
\<close>

definition date_filtered :: "txn list \<Rightarrow> date \<Rightarrow> date \<Rightarrow> txn list" where
  "date_filtered df start_date end_date =
     filter (\<lambda>r. Date r \<ge> start_date \<and> Date r \<le> end_date) df"

definition df_filtered ::
  "txn list \<Rightarrow> date \<Rightarrow> date \<Rightarrow> string option list \<Rightarrow> txn list" where
  "df_filtered df start_date end_date selected_categories =
     filter (\<lambda>r. isin (Category r) selected_categories)
       (date_filtered df start_date end_date)"

definition category_summary :: "(int list \<Rightarrow> nat list) \<Rightarrow> txn list \<Rightarrow> (string \<times> int) list" where
  "category_summary argsort fs = sort_values_desc argsort (groupby_sum Category fs)"

definition day_summary :: "(int list \<Rightarrow> nat list) \<Rightarrow> txn list \<Rightarrow> (string \<times> int) list" where
  "day_summary argsort fs =
     sort_values_desc argsort (groupby_sum (\<lambda>r. Some (DayOfWeek r)) fs)"

definition hour_summary :: "(int list \<Rightarrow> nat list) \<Rightarrow> txn list \<Rightarrow> (nat \<times> int) list" where
  "hour_summary argsort fs = sort_values_desc argsort (groupby_sum Hour fs)"

definition top_merchants :: "(int list \<Rightarrow> nat list) \<Rightarrow> txn list \<Rightarrow> (string \<times> int) list" where
  "top_merchants argsort fs = head 5 (sort_values_desc argsort (groupby_sum Receiver fs))"

text \<open>A NaN amount is not below 500: the comparison is false on it.\<close>

definition amount_lt :: "int option \<Rightarrow> int \<Rightarrow> bool" where
  "amount_lt a bound = (case a of None \<Rightarrow> False | Some v \<Rightarrow> v < bound)"

definition small_transactions :: "txn list \<Rightarrow> txn list" where
  "small_transactions fs = filter (\<lambda>r. amount_lt (Amount r) 500) fs"

text \<open>The two keys of line 34; a row without a receiver has no key.\<close>

definition receiver_month :: "txn \<Rightarrow> (string \<times> period) option" where
  "receiver_month r = map_option (\<lambda>x. (x, Month r)) (Receiver r)"

definition recurring :: "txn list \<Rightarrow> ((string \<times> period) \<times> nat) list" where
  "recurring fs = groupby_size receiver_month (small_transactions fs)"

definition wasteful_small :: "txn list \<Rightarrow> ((string \<times> period) \<times> nat) list" where
  "wasteful_small fs = filter (\<lambda>e. snd e > 3) (recurring fs)"

definition wasteful_status :: "txn list \<Rightarrow> txn list" where
  "wasteful_status fs =
     filter (\<lambda>r. isin (Status r) [Some ''PENDING'', Some ''FAILED'']) fs"

text \<open>The columns of \<open>wasteful_status\<close> that the dashboard lists (line 102).\<close>

definition wasteful_status_columns ::
  "txn list \<Rightarrow> (date \<times> string option \<times> int option \<times> string option) list" where
  "wasteful_status_columns ws = map (\<lambda>r. (Date r, Receiver r, Amount r, Status r)) ws"

definition monthly_trend :: "txn list \<Rightarrow> (period \<times> int) list" where
  "monthly_trend fs = groupby_sum (\<lambda>r. Some (to_period_M (Date r))) fs"

text \<open>
  The summaries of one pass over the table, collected: what the spec calls the
  SummaryBundle of \<open>aggregate\<close>. The thresholds 500 and 3 and the length 5 are the
  constants of the script.
\<close>

record summary_bundle =
  categoryTotals :: "(string \<times> int) list"
  dayOfWeekTotals :: "(string \<times> int) list"
  hourTotals :: "(nat \<times> int) list"
  topMerchants :: "(string \<times> int) list"
  monthlyTrend :: "(period \<times> int) list"
  wastefulRecurring :: "((string \<times> period) \<times> nat) list"
  wastefulStatus :: "txn list"

definition aggregate ::
  "(int list \<Rightarrow> nat list) \<Rightarrow> txn list \<Rightarrow> date \<Rightarrow> date \<Rightarrow> string option list
     \<Rightarrow> summary_bundle" where
  "aggregate argsort df start_date end_date selected_categories =
     (let fs = df_filtered df start_date end_date selected_categories
      in \<lparr>categoryTotals = category_summary argsort fs,
          dayOfWeekTotals = day_summary argsort fs,
          hourTotals = hour_summary argsort fs,
          topMerchants = top_merchants argsort fs,
          monthlyTrend = monthly_trend fs,
          wastefulRecurring = wasteful_small fs,
          wastefulStatus = wasteful_status fs\<rparr>)"

definition empty_bundle :: summary_bundle where
  "empty_bundle =
     \<lparr>categoryTotals = [], dayOfWeekTotals = [], hourTotals = [], topMerchants = [],
      monthlyTrend = [], wastefulRecurring = [], wastefulStatus = []\<rparr>"

section \<open>Properties of the summaries\<close>

text \<open>The known amounts of a table, in row order.\<close>

definition known_amounts :: "txn list \<Rightarrow> int list" where
  "known_amounts rows = List.map_filter Amount rows"

text \<open>
  The sums of a table are exact in the script's arithmetic when the sizes of its known
  amounts add up to at most \<open>2 ^ 53\<close>: then every partial sum, in any order, is a whole
  number of that range.
\<close>

definition exactly_summed :: "txn list \<Rightarrow> bool" where
  "exactly_summed rows = (sum_list (map abs (known_amounts rows)) \<le> 2 ^ 53)"

text \<open>An amount as a summand: NaN adds nothing.\<close>

definition known :: "int option \<Rightarrow> int" where
  "known a = (case a of None \<Rightarrow> 0 | Some v \<Rightarrow> v)"




text \<open>The rows a status listing reports: pending or failed payments.\<close>

definition unsettled :: "('a, 'z) row_scheme \<Rightarrow> bool" where
  "unsettled r = (Status r = Some ''PENDING'' \<or> Status r = Some ''FAILED'')"


section \<open>A sorting routine and example ledgers\<close>

text \<open>
  One routine that meets \<open>argsort_ok\<close>: the positions in the order of a stable sort of
  the values.
\<close>

definition stable_argsort :: "int list \<Rightarrow> nat list" where
  "stable_argsort vs = map snd (sort_key fst (zip vs [0..<length vs]))"

definition csv :: "date \<Rightarrow> time_of_day \<Rightarrow> cell \<Rightarrow> string \<Rightarrow> string \<Rightarrow> string \<Rightarrow> csv_row" where
  "csv d t a c r st =
     \<lparr>Date = d, Time = Some t, Amount = a, Category = Some c, Receiver = Some r,
      Status = Some st\<rparr>"

text \<open>
  Five rows over three months: an unreadable amount on a pending payment, a failed
  payment above the small-amount bound, a category whose total is negative and a
  category whose only amount is unreadable.
\<close>

definition ledger :: "csv_row list" where
  "ledger =
     [csv (2024, 1, 15) (9, 30, 0) (Numeric 250) ''Food'' ''Coffee Shop'' ''COMPLETED'',
      csv (2024, 1, 20) (13, 0, 0) (NonNumeric ''n/a'') ''Food'' ''Grocer'' ''PENDING'',
      csv (2024, 2, 1) (18, 45, 0) (Numeric 1200) ''Rent'' ''Landlord'' ''FAILED'',
      csv (2024, 2, 10) (9, 5, 0) (Numeric (- 300)) ''Refund'' ''Shop'' ''COMPLETED'',
      csv (2024, 3, 5) (20, 0, 0) (NonNumeric ''?'') ''Misc'' ''Kiosk'' ''COMPLETED'']"

definition all_categories :: "string option list" where
  "all_categories = [Some ''Food'', Some ''Rent'', Some ''Refund'', Some ''Misc'']"

text \<open>Payments of 100 to one merchant on days of January 2024: three, and a fourth.\<close>

definition coffee_payment :: "nat \<Rightarrow> csv_row" where
  "coffee_payment day =
     csv (2024, 1, day) (8, 0, 0) (Numeric 100) ''Food'' ''Coffee Shop'' ''COMPLETED''"

definition coffee3 :: "csv_row list" where
  "coffee3 = [coffee_payment 1, coffee_payment 2, coffee_payment 3]"

definition coffee4 :: "csv_row list" where
  "coffee4 = coffee3 @ [coffee_payment 4]"



text \<open>A payment of 100 whose category cell is missing, and one of 50 for food.\<close>

definition unlabelled :: "csv_row list" where
  "unlabelled =
     [\<lparr>Date = (2024, 1, 2), Time = Some (10, 0, 0), Amount = Numeric 100, Category = None,
       Receiver = Some ''A'', Status = Some ''COMPLETED''\<rparr>,
      csv (2024, 1, 3) (11, 0, 0) (Numeric 50) ''Food'' ''B'' ''COMPLETED'']"

section \<open>Facts about the pandas operations\<close>

lemma nansum_known_amounts: "nansum (map Amount rows) = sum_list (known_amounts rows)"
proof (induction rows)
  case Nil
  then show ?case by (simp add: known_amounts_def map_filter_simps)
next
  case (Cons r rows)
  then show ?case
    by (cases "Amount r") (simp_all add: known_amounts_def map_filter_simps)
qed

lemma known_amounts_Cons:
  "known_amounts (r # rows) =
     (case Amount r of None \<Rightarrow> known_amounts rows | Some a \<Rightarrow> a # known_amounts rows)"
  by (cases "Amount r") (simp_all add: known_amounts_def map_filter_simps)

lemma known_amounts_Nil: "known_amounts [] = []"
  by (simp add: known_amounts_def map_filter_simps)

lemma set_map_filter_conv: "set (List.map_filter f xs) = {y. \<exists>x\<in>set xs. f x = Some y}"
  by (induction xs) (auto simp: map_filter_simps split: option.splits)

lemma set_group_keys: "set (group_keys key rows) = {k. \<exists>r\<in>set rows. key r = Some k}"
  by (simp add: group_keys_def set_map_filter_conv)

lemma distinct_group_keys: "distinct (group_keys key rows)"
  by (simp add: group_keys_def)

lemma sorted_group_keys: "sorted (group_keys key rows)"
  by (simp add: group_keys_def)

lemma strict_sorted_group_keys: "sorted_wrt (<) (group_keys key rows)"
  using sorted_group_keys distinct_group_keys strict_sorted_iff by blast



lemma mset_take_idx:
  assumes "mset p = mset [0..<length xs]"
  shows "mset (take_idx xs p) = mset xs"
proof -
  have "mset (take_idx xs p) = image_mset ((!) xs) (mset p)"
    by (simp add: take_idx_def)
  also have "\<dots> = mset (map ((!) xs) [0..<length xs])"
    by (simp add: assms)
  also have "\<dots> = mset xs"
    by (simp add: map_nth)
  finally show ?thesis .
qed

lemma mset_sort_values_desc:
  assumes "argsort_ok f"
  shows "mset (sort_values_desc f s) = mset s"
proof -
  have "mset (f (map snd (rev s))) = mset [0..<length (rev s)]"
    using assms by (simp add: argsort_ok_def)
  then have "mset (take_idx (rev s) (f (map snd (rev s)))) = mset (rev s)"
    by (rule mset_take_idx)
  then show ?thesis
    by (simp add: sort_values_desc_def)
qed


lemma length_sort_values_desc: "argsort_ok f \<Longrightarrow> length (sort_values_desc f s) = length s"
  using mset_sort_values_desc mset_eq_length by blast

lemma sum_sort_values_desc:
  assumes "argsort_ok f"
  shows "sum_list (map snd (sort_values_desc f s)) = sum_list (map snd s)"
proof -
  have "mset (map snd (sort_values_desc f s)) = mset (map snd s)"
    by (simp add: mset_sort_values_desc [OF assms])
  then show ?thesis
    by (metis sum_mset_sum_list)
qed



lemma argsort_ok_stable: "argsort_ok stable_argsort"
proof -
  have "mset (stable_argsort vs) = mset [0..<length vs]
      \<and> sorted (take_idx vs (stable_argsort vs))" for vs
  proof
    let ?z = "zip vs [0..<length vs]"
    have z: "map snd ?z = [0..<length vs]"
      by (rule map_snd_zip) simp
    have "mset (map snd (sort_key fst ?z)) = mset (map snd ?z)"
      by (simp only: mset_map mset_sort)
    with z show "mset (stable_argsort vs) = mset [0..<length vs]"
      unfolding stable_argsort_def by (simp only:)
    have "\<And>q. q \<in> set (sort_key fst ?z) \<Longrightarrow> vs ! snd q = fst q"
      by (auto simp: set_zip)
    then have "map ((!) vs) (map snd (sort_key fst ?z)) = map fst (sort_key fst ?z)"
      by simp
    moreover have "sorted (map fst (sort_key fst ?z))"
      by (rule sorted_sort_key)
    ultimately show "sorted (take_idx vs (stable_argsort vs))"
      unfolding stable_argsort_def take_idx_def by (simp only:)
  qed
  then show ?thesis
    by (simp add: argsort_ok_def)
qed

lemma sort_values_desc_Nil: "argsort_ok f \<Longrightarrow> sort_values_desc f [] = []"
  using length_sort_values_desc [of f "[]"] by simp

text \<open>Each row with a key lies in exactly one group, so the group sums add up.\<close>

lemma pick_none:
  "k \<notin> set ks \<Longrightarrow> (\<Sum>j\<leftarrow>ks. if k = j then (v::int) else 0) = 0"
  by (induction ks) auto

lemma pick_one:
  "distinct ks \<Longrightarrow> k \<in> set ks \<Longrightarrow> (\<Sum>j\<leftarrow>ks. if k = j then (v::int) else 0) = v"
  by (induction ks) (auto simp: pick_none)

lemma sum_of_group_sums:
  assumes "distinct ks" and "{k. \<exists>r\<in>set rows. key r = Some k} \<subseteq> set ks"
  shows "(\<Sum>k\<leftarrow>ks. \<Sum>r\<leftarrow>filter (\<lambda>r. key r = Some k) rows. (g r :: int))
       = (\<Sum>r\<leftarrow>filter (\<lambda>r. key r \<noteq> None) rows. g r)"
  using assms(2)
proof (induction rows)
  case Nil
  then show ?case by simp
next
  case (Cons x xs)
  have sub: "{k. \<exists>r\<in>set xs. key r = Some k} \<subseteq> set ks"
    using Cons.prems by auto
  note IH = Cons.IH [OF sub]
  show ?case
  proof (cases "key x")
    case None
    then show ?thesis using IH by simp
  next
    case (Some k0)
    have split: "\<And>k. (\<Sum>r\<leftarrow>filter (\<lambda>r. key r = Some k) (x # xs). g r)
        = (if k0 = k then g x else 0) + (\<Sum>r\<leftarrow>filter (\<lambda>r. key r = Some k) xs. g r)"
      using Some by simp
    have "(\<Sum>k\<leftarrow>ks. \<Sum>r\<leftarrow>filter (\<lambda>r. key r = Some k) (x # xs). g r)
        = (\<Sum>k\<leftarrow>ks. if k0 = k then g x else 0)
          + (\<Sum>k\<leftarrow>ks. \<Sum>r\<leftarrow>filter (\<lambda>r. key r = Some k) xs. g r)"
      unfolding split by (simp add: sum_list_addf)
    moreover have "k0 \<in> set ks"
      using Cons.prems Some by auto
    then have "(\<Sum>k\<leftarrow>ks. if k0 = k then g x else 0) = g x"
      using pick_one [OF assms(1)] by simp
    ultimately show ?thesis
      using IH Some by simp
  qed
qed

lemma nansum_conv: "nansum xs = sum_list (map known xs)"
  by (induction xs rule: nansum.induct) (simp_all add: known_def)

lemma sum_known_amounts: "sum_list (known_amounts rows) = (\<Sum>r\<leftarrow>rows. known (Amount r))"
  using nansum_known_amounts [of rows] by (simp add: nansum_conv comp_def)

lemma sum_groupby_sum:
  "sum_list (map snd (groupby_sum key rows))
     = sum_list (known_amounts (filter (\<lambda>r. key r \<noteq> None) rows))"
proof -
  have "sum_list (map snd (groupby_sum key rows))
      = (\<Sum>k\<leftarrow>group_keys key rows. \<Sum>r\<leftarrow>filter (\<lambda>r. key r = Some k) rows. known (Amount r))"
    by (simp add: groupby_sum_def group_rows_def nansum_conv comp_def)
  also have "\<dots> = (\<Sum>r\<leftarrow>filter (\<lambda>r. key r \<noteq> None) rows. known (Amount r))"
    by (rule sum_of_group_sums) (simp_all add: distinct_group_keys set_group_keys)
  finally show ?thesis
    by (simp add: sum_known_amounts)
qed

lemma df_filtered_conv:
  "df_filtered df s e sel =
     filter (\<lambda>r. s \<le> Date r \<and> Date r \<le> e \<and> Category r \<in> set sel) df"
  by (simp add: df_filtered_def date_filtered_def isin_def conj_commute conj_left_commute)

lemma aggregate_fields:
  "categoryTotals (aggregate f df s e sel) = category_summary f (df_filtered df s e sel)"
  "dayOfWeekTotals (aggregate f df s e sel) = day_summary f (df_filtered df s e sel)"
  "hourTotals (aggregate f df s e sel) = hour_summary f (df_filtered df s e sel)"
  "topMerchants (aggregate f df s e sel) = top_merchants f (df_filtered df s e sel)"
  "monthlyTrend (aggregate f df s e sel) = monthly_trend (df_filtered df s e sel)"
  "wastefulRecurring (aggregate f df s e sel) = wasteful_small (df_filtered df s e sel)"
  "wastefulStatus (aggregate f df s e sel) = wasteful_status (df_filtered df s e sel)"
  by (simp_all add: aggregate_def Let_def)



lemma map_fst_groupby_sum: "map fst (groupby_sum key rows) = group_keys key rows"
  by (simp add: groupby_sum_def comp_def)


lemma wasteful_status_conv: "wasteful_status fs = filter unsettled fs"
  unfolding wasteful_status_def
  by (rule filter_cong) (simp_all add: isin_def unsettled_def)

text \<open>Groups, counts and truncated rankings.\<close>

lemma group_keys_iff: "k \<in> set (group_keys key rows) \<longleftrightarrow> group_rows key rows k \<noteq> []"
  by (auto simp: set_group_keys group_rows_def filter_empty_conv)

lemma set_groupby_size:
  "(k, c) \<in> set (groupby_size key rows)
     \<longleftrightarrow> group_rows key rows k \<noteq> [] \<and> c = length (group_rows key rows k)"
  by (auto simp: groupby_size_def group_keys_iff)

lemma recurring_group:
  "group_rows receiver_month (small_transactions fs) (r, m) =
     filter (\<lambda>t. Receiver t = Some r \<and> Month t = m \<and> (\<exists>a. Amount t = Some a \<and> a < 500)) fs"
  unfolding group_rows_def small_transactions_def filter_filter
  by (rule filter_cong) (auto simp: receiver_month_def amount_lt_def split: option.splits)

lemma set_group_keys_total: "set (group_keys (\<lambda>r. Some (f r)) rows) = f ` set rows"
  by (auto simp: set_group_keys)

lemma groupby_Nil: "groupby_sum key [] = []" "groupby_size key [] = []"
  by (simp_all add: groupby_sum_def groupby_size_def group_keys_def map_filter_simps)





section \<open>The example ledgers as the script holds them after line 14\<close>

lemmas load_eval = load_def load_row_def csv_def hour_of_def day_name_def month_offset_def
  year_offset_def

lemmas summary_eval = df_filtered_def date_filtered_def isin_def category_summary_def
  day_summary_def hour_summary_def top_merchants_def sort_values_desc_def groupby_sum_def
  groupby_size_def group_keys_def group_rows_def head_def monthly_trend_def
  small_transactions_def amount_lt_def recurring_def receiver_month_def wasteful_small_def
  wasteful_status_def wasteful_status_columns_def map_filter_simps stable_argsort_def
  take_idx_def

lemma ledger_loaded:
  "load ledger =
     [\<lparr>Date = (2024, 1, 15), Time = Some (9, 30, 0), Amount = Some 250,
        Category = Some ''Food'', Receiver = Some ''Coffee Shop'',
        Status = Some ''COMPLETED'', DayOfWeek = ''Monday'', Hour = Some 9,
        Month = (2024, 1)\<rparr>,
      \<lparr>Date = (2024, 1, 20), Time = Some (13, 0, 0), Amount = None,
        Category = Some ''Food'', Receiver = Some ''Grocer'', Status = Some ''PENDING'',
        DayOfWeek = ''Saturday'', Hour = Some 13, Month = (2024, 1)\<rparr>,
      \<lparr>Date = (2024, 2, 1), Time = Some (18, 45, 0), Amount = Some 1200,
        Category = Some ''Rent'', Receiver = Some ''Landlord'', Status = Some ''FAILED'',
        DayOfWeek = ''Thursday'', Hour = Some 18, Month = (2024, 2)\<rparr>,
      \<lparr>Date = (2024, 2, 10), Time = Some (9, 5, 0), Amount = Some (- 300),
        Category = Some ''Refund'', Receiver = Some ''Shop'', Status = Some ''COMPLETED'',
        DayOfWeek = ''Saturday'', Hour = Some 9, Month = (2024, 2)\<rparr>,
      \<lparr>Date = (2024, 3, 5), Time = Some (20, 0, 0), Amount = None,
        Category = Some ''Misc'', Receiver = Some ''Kiosk'', Status = Some ''COMPLETED'',
        DayOfWeek = ''Tuesday'', Hour = Some 20, Month = (2024, 3)\<rparr>]"
  by (simp add: ledger_def load_eval)

lemma ledger_filtered:
  "df_filtered (load ledger) (2024, 1, 1) (2024, 12, 31) all_categories = load ledger"
  by (simp add: ledger_loaded all_categories_def df_filtered_def date_filtered_def isin_def)

lemma unlabelled_loaded:
  "load unlabelled =
     [\<lparr>Date = (2024, 1, 2), Time = Some (10, 0, 0), Amount = Some 100, Category = None,
        Receiver = Some ''A'', Status = Some ''COMPLETED'', DayOfWeek = ''Tuesday'',
        Hour = Some 10, Month = (2024, 1)\<rparr>,
      \<lparr>Date = (2024, 1, 3), Time = Some (11, 0, 0), Amount = Some 50,
        Category = Some ''Food'', Receiver = Some ''B'', Status = Some ''COMPLETED'',
        DayOfWeek = ''Wednesday'', Hour = Some 11, Month = (2024, 1)\<rparr>]"
  by (simp add: unlabelled_def load_eval)

lemma unlabelled_filtered:
  "df_filtered (load unlabelled) (2024, 1, 1) (2024, 1, 31) [None, Some ''Food'']
     = load unlabelled"
  by (simp add: unlabelled_loaded df_filtered_def date_filtered_def isin_def)

lemmas coffee_eval = coffee3_def coffee4_def coffee_payment_def







section \<open>The summaries against their specification\<close>

text \<open>
  In what follows \<open>argsort\<close> is the sorting routine that \<open>sort_values\<close> calls, of which
  nothing is used but \<open>argsort_ok\<close>; the examples run with \<open>stable_argsort\<close>.
\<close>

subsection \<open>Category totals\<close>

text \<open>
  Claim C1 says that the values of \<open>categoryTotals\<close> add up to the sum of the amounts of
  the filtered rows whose amount is known. The script does not do that for a row
  whose category cell is missing: lines 24--26 keep the row when the missing category
  is among the selected ones, and \<open>groupby\<close> gives it no group. With a payment of 100
  without category and a payment of 50 for food, the category totals add up to 50 and
  the known amounts of the filtered rows to 150, whatever the sorting routine.
\<close>

theorem category_totals_sum_counterexample:
  "sum_list (map snd (categoryTotals
      (aggregate stable_argsort (load unlabelled) (2024, 1, 1) (2024, 1, 31)
         [None, Some ''Food''])))
   \<noteq> sum_list (known_amounts
      (df_filtered (load unlabelled) (2024, 1, 1) (2024, 1, 31) [None, Some ''Food'']))"
proof -
  have "sum_list (map snd (categoryTotals
      (aggregate stable_argsort (load unlabelled) (2024, 1, 1) (2024, 1, 31)
         [None, Some ''Food'']))) = 50"
    unfolding aggregate_fields unlabelled_filtered
    by (simp add: unlabelled_loaded category_summary_def sort_values_desc_def
        groupby_sum_def group_keys_def group_rows_def map_filter_simps stable_argsort_def
        take_idx_def)
  moreover have "sum_list (known_amounts
      (df_filtered (load unlabelled) (2024, 1, 1) (2024, 1, 31) [None, Some ''Food'']))
      = 150"
    unfolding unlabelled_filtered
    by (simp add: unlabelled_loaded known_amounts_def map_filter_simps)
  ultimately show ?thesis by simp
qed

text \<open>
  Claim C1, amended. For every table, date range and category selection whose filtered
  rows are summed exactly, the values of \<open>categoryTotals\<close> add up to the sum of the known
  amounts of the filtered rows that have a category; a row whose amount was coerced
  to NaN adds nothing.
\<close>

theorem category_totals_sum:
  assumes "argsort_ok argsort"
    and "exactly_summed (df_filtered df start_date end_date selected_categories)"
  shows "sum_list (map snd (categoryTotals
            (aggregate argsort df start_date end_date selected_categories)))
       = sum_list (known_amounts (filter (\<lambda>r. Category r \<noteq> None)
            (df_filtered df start_date end_date selected_categories)))"
  by (simp add: aggregate_fields category_summary_def sum_sort_values_desc [OF assms(1)]
      sum_groupby_sum)

text \<open>
  On the example ledger the two unreadable amounts are left out and the three known
  ones add up.
\<close>

theorem category_totals_sum_witness:
  "argsort_ok stable_argsort
   \<and> exactly_summed (df_filtered (load ledger) (2024, 1, 1) (2024, 12, 31) all_categories)
   \<and> sum_list (map snd (categoryTotals
        (aggregate stable_argsort (load ledger) (2024, 1, 1) (2024, 12, 31) all_categories)))
      = 250 + 1200 + (- 300)"
proof -
  have ex: "exactly_summed (df_filtered (load ledger) (2024, 1, 1) (2024, 12, 31) all_categories)"
    unfolding ledger_filtered
    by (simp add: ledger_loaded exactly_summed_def known_amounts_def map_filter_simps)
  have "sum_list (known_amounts (filter (\<lambda>r. Category r \<noteq> None)
          (df_filtered (load ledger) (2024, 1, 1) (2024, 12, 31) all_categories)))
        = 250 + 1200 + (- 300)"
    unfolding ledger_filtered
    by (simp add: ledger_loaded known_amounts_def map_filter_simps)
  with category_totals_sum [OF argsort_ok_stable ex] argsort_ok_stable ex
  show ?thesis by simp
qed

subsection \<open>Small recurring payments\<close>

text \<open>
  Claim C2. \<open>wastefulRecurring\<close> lists a pair of a receiver and a month with a count
  exactly when the count is the number of filtered rows of that receiver and month
  whose amount is known and strictly below 500, and the count is strictly greater
  than 3. So three payments of 100 to one merchant in one month are not listed, and a
  fourth lists the merchant with count 4.
\<close>

theorem wasteful_recurring_rule:
  "((r, m), c) \<in> set (wastefulRecurring
        (aggregate argsort df start_date end_date selected_categories))
   \<longleftrightarrow> c = length (filter (\<lambda>t. Receiver t = Some r \<and> Month t = m
                                \<and> (\<exists>a. Amount t = Some a \<and> a < 500))
                      (df_filtered df start_date end_date selected_categories))
       \<and> 3 < c"
  by (auto simp: aggregate_fields wasteful_small_def recurring_def set_groupby_size
      recurring_group)

text \<open>Three coffee payments in January 2024 list nothing; four list the shop with 4.\<close>

theorem wasteful_recurring_rule_witness:
  "((''Coffee Shop'', (2024, 1)), 4) \<in> set (wastefulRecurring
      (aggregate stable_argsort (load coffee4) (2024, 1, 1) (2024, 1, 31) [Some ''Food'']))
   \<and> ((''Coffee Shop'', (2024, 1)), 3) \<notin> set (wastefulRecurring
      (aggregate stable_argsort (load coffee3) (2024, 1, 1) (2024, 1, 31) [Some ''Food'']))
   \<and> wastefulRecurring
      (aggregate stable_argsort (load coffee3) (2024, 1, 1) (2024, 1, 31) [Some ''Food''])
     = []"
proof -
  have "wastefulRecurring
      (aggregate stable_argsort (load coffee3) (2024, 1, 1) (2024, 1, 31) [Some ''Food''])
     = []"
    by (simp add: aggregate_fields coffee_eval load_eval summary_eval)
  then show ?thesis
    using wasteful_recurring_rule [of "''Coffee Shop''" "(2024, 1)" 4 stable_argsort
      "load coffee4" "(2024, 1, 1)" "(2024, 1, 31)" "[Some ''Food'']"]
    wasteful_recurring_rule [of "''Coffee Shop''" "(2024, 1)" 3 stable_argsort
      "load coffee3" "(2024, 1, 1)" "(2024, 1, 31)" "[Some ''Food'']"]
    by (simp add: coffee_eval load_eval df_filtered_def date_filtered_def isin_def)
qed

subsection \<open>Top merchants\<close>




subsection \<open>Monthly trend\<close>

text \<open>
  Claim C4. The months of \<open>monthlyTrend\<close> are the months of the filtered rows, each
  once, in strictly ascending calendar order (the earlier year first, then the
  earlier month), whatever the totals are.
\<close>

theorem monthly_trend_chronological:
  "sorted_wrt (<) (map fst (monthlyTrend
       (aggregate argsort df start_date end_date selected_categories)))
   \<and> set (map fst (monthlyTrend
       (aggregate argsort df start_date end_date selected_categories)))
     = (\<lambda>r. to_period_M (Date r)) ` set (df_filtered df start_date end_date selected_categories)
   \<and> (((y, m) :: period) < (y', m') \<longleftrightarrow> y < y' \<or> (y = y' \<and> m < m'))"
proof -
  let ?fs = "df_filtered df start_date end_date selected_categories"
  have keys: "map fst (monthlyTrend
       (aggregate argsort df start_date end_date selected_categories))
     = group_keys (\<lambda>r. Some (to_period_M (Date r))) ?fs"
    by (simp add: aggregate_fields monthly_trend_def map_fst_groupby_sum)
  have "set (group_keys (\<lambda>r. Some (to_period_M (Date r))) ?fs)
      = (\<lambda>r. to_period_M (Date r)) ` set ?fs"
    by (rule set_group_keys_total)
  moreover have "((y, m) :: period) < (y', m') \<longleftrightarrow> y < y' \<or> (y = y' \<and> m < m')"
    by auto
  ultimately show ?thesis
    unfolding keys using strict_sorted_group_keys by blast
qed

text \<open>
  On the example ledger the months come in calendar order although the totals go up
  and then down.
\<close>

theorem monthly_trend_chronological_witness:
  "monthlyTrend (aggregate stable_argsort (load ledger) (2024, 1, 1) (2024, 12, 31)
       all_categories)
     = [((2024, 1), 250), ((2024, 2), 900), ((2024, 3), 0)]
   \<and> sorted_wrt (<) [(2024, 1), (2024, 2), (2024, 3 :: nat) :: period]"
proof -
  have m: "monthlyTrend (aggregate stable_argsort (load ledger) (2024, 1, 1) (2024, 12, 31)
       all_categories)
     = [((2024, 1), 250), ((2024, 2), 900), ((2024, 3), 0)]"
    unfolding aggregate_fields ledger_filtered
    by (simp add: ledger_loaded monthly_trend_def groupby_sum_def group_keys_def
        group_rows_def map_filter_simps)
  show ?thesis
    using monthly_trend_chronological [of stable_argsort "load ledger" "(2024, 1, 1)"
      "(2024, 12, 31)" all_categories]
    unfolding m by simp
qed

subsection \<open>Pending and failed payments\<close>

text \<open>
  Claim C5. \<open>wastefulStatus\<close> holds exactly the filtered rows whose status is PENDING or
  FAILED, taken from all filtered rows whatever their amount, in their original
  order; a row of any other status is not in it. Each entry carries its date,
  receiver, amount and status, which is what the dashboard lists.
\<close>

theorem wasteful_status_rule:
  "wastefulStatus (aggregate argsort df start_date end_date selected_categories)
     = filter unsettled (df_filtered df start_date end_date selected_categories)
   \<and> (t \<in> set (wastefulStatus (aggregate argsort df start_date end_date selected_categories))
        \<longleftrightarrow> t \<in> set (df_filtered df start_date end_date selected_categories)
            \<and> (Status t = Some ''PENDING'' \<or> Status t = Some ''FAILED''))
   \<and> subseq (wastefulStatus (aggregate argsort df start_date end_date selected_categories))
        (df_filtered df start_date end_date selected_categories)
   \<and> wasteful_status_columns
        (wastefulStatus (aggregate argsort df start_date end_date selected_categories))
     = map (\<lambda>t. (Date t, Receiver t, Amount t, Status t))
         (filter unsettled (df_filtered df start_date end_date selected_categories))"
  by (simp add: aggregate_fields wasteful_status_conv wasteful_status_columns_def
      unsettled_def)

text \<open>
  On the example ledger the pending payment without a readable amount and the failed
  payment of 1200 are listed, in table order; the completed first row is not.
\<close>

theorem wasteful_status_rule_witness:
  "wasteful_status_columns (wastefulStatus
      (aggregate stable_argsort (load ledger) (2024, 1, 1) (2024, 12, 31) all_categories))
     = [((2024, 1, 20), Some ''Grocer'', None, Some ''PENDING''),
        ((2024, 2, 1), Some ''Landlord'', Some 1200, Some ''FAILED'')]
   \<and> Status (load ledger ! 0) = Some ''COMPLETED''
   \<and> load ledger ! 0 \<notin> set (wastefulStatus
      (aggregate stable_argsort (load ledger) (2024, 1, 1) (2024, 12, 31) all_categories))"
proof -
  note rule = wasteful_status_rule [of stable_argsort "load ledger" "(2024, 1, 1)"
      "(2024, 12, 31)" all_categories "load ledger ! 0"]
  have "map (\<lambda>t. (Date t, Receiver t, Amount t, Status t))
          (filter unsettled
            (df_filtered (load ledger) (2024, 1, 1) (2024, 12, 31) all_categories))
      = [((2024, 1, 20), Some ''Grocer'', None, Some ''PENDING''),
         ((2024, 2, 1), Some ''Landlord'', Some 1200, Some ''FAILED'')]"
    unfolding ledger_filtered by (simp add: ledger_loaded unsettled_def)
  with rule [THEN conjunct2, THEN conjunct2, THEN conjunct2]
  have listed: "wasteful_status_columns (wastefulStatus
      (aggregate stable_argsort (load ledger) (2024, 1, 1) (2024, 12, 31) all_categories))
     = [((2024, 1, 20), Some ''Grocer'', None, Some ''PENDING''),
        ((2024, 2, 1), Some ''Landlord'', Some 1200, Some ''FAILED'')]"
    by (simp only:)
  have completed: "Status (load ledger ! 0) = Some ''COMPLETED''"
    by (simp add: ledger_loaded)
  then have "\<not> (Status (load ledger ! 0) = Some ''PENDING''
      \<or> Status (load ledger ! 0) = Some ''FAILED'')"
    by simp
  with rule [THEN conjunct2, THEN conjunct1]
  have "load ledger ! 0 \<notin> set (wastefulStatus
      (aggregate stable_argsort (load ledger) (2024, 1, 1) (2024, 12, 31) all_categories))"
    by blast
  with listed completed show ?thesis by blast
qed

subsection \<open>Empty range, empty selection\<close>

text \<open>
  Claim C6. If the start date is after the end date, or no category is selected, every
  field of the bundle is empty; the aggregation is a total function, so there is no
  error.
\<close>

theorem empty_range_or_selection:
  assumes "argsort_ok argsort"
    and "end_date < start_date \<or> selected_categories = []"
  shows "aggregate argsort df start_date end_date selected_categories = empty_bundle"
proof -
  have "df_filtered df start_date end_date selected_categories = []"
    using assms(2) by (auto simp: df_filtered_conv filter_empty_conv)
  then show ?thesis
    by (simp add: aggregate_def category_summary_def day_summary_def hour_summary_def
        top_merchants_def monthly_trend_def wasteful_small_def recurring_def
        small_transactions_def wasteful_status_def groupby_Nil head_def
        sort_values_desc_Nil [OF assms(1)] empty_bundle_def)
qed

text \<open>The example ledger with a reversed range, and with no category selected.\<close>

theorem empty_range_or_selection_witness:
  "argsort_ok stable_argsort
   \<and> ((2024, 1, 1) :: date) < (2024, 3, 1)
   \<and> aggregate stable_argsort (load ledger) (2024, 3, 1) (2024, 1, 1) all_categories
       = empty_bundle
   \<and> aggregate stable_argsort (load ledger) (2024, 1, 1) (2024, 12, 31) [] = empty_bundle"
proof -
  have lt: "((2024, 1, 1) :: date) < (2024, 3, 1)"
    by simp
  show ?thesis
    using empty_range_or_selection [OF argsort_ok_stable, of "(2024, 1, 1)" "(2024, 3, 1)"
        all_categories "load ledger"]
      empty_range_or_selection [OF argsort_ok_stable, of "(2024, 12, 31)" "(2024, 1, 1)"
        "[]" "load ledger"]
      argsort_ok_stable lt
    by simp
qed

subsection \<open>Groups with missing amounts, totals that are not positive\<close>




subsection \<open>The filter\<close>

text \<open>
  Claim C8. The date filter includes both bounds: a row is kept exactly when its date
  lies between the start and the end date, both included, and its category is
  selected; with the start and the end on the same day \<open>d\<close>, exactly the rows dated
  \<open>d\<close> (of a selected category) are kept. The rows keep their order.
\<close>

theorem date_filter_inclusive:
  "df_filtered df start_date end_date selected_categories =
     filter (\<lambda>r. start_date \<le> Date r \<and> Date r \<le> end_date
                 \<and> Category r \<in> set selected_categories) df
   \<and> df_filtered df d d selected_categories =
     filter (\<lambda>r. Date r = d \<and> Category r \<in> set selected_categories) df"
proof
  show "df_filtered df start_date end_date selected_categories =
     filter (\<lambda>r. start_date \<le> Date r \<and> Date r \<le> end_date
                 \<and> Category r \<in> set selected_categories) df"
    by (rule df_filtered_conv)
  have "df_filtered df d d selected_categories =
     filter (\<lambda>r. d \<le> Date r \<and> Date r \<le> d \<and> Category r \<in> set selected_categories) df"
    by (rule df_filtered_conv)
  also have "\<dots> = filter (\<lambda>r. Date r = d \<and> Category r \<in> set selected_categories) df"
    by (rule filter_cong) auto
  finally show "df_filtered df d d selected_categories =
     filter (\<lambda>r. Date r = d \<and> Category r \<in> set selected_categories) df" .
qed

text \<open>Rows dated on either bound are kept; a one-day range keeps that day's row.\<close>

theorem date_filter_inclusive_witness:
  "map Receiver (df_filtered (load ledger) (2024, 1, 20) (2024, 2, 1)
       [Some ''Food'', Some ''Rent''])
     = [Some ''Grocer'', Some ''Landlord'']
   \<and> map Receiver (df_filtered (load ledger) (2024, 2, 10) (2024, 2, 10)
       [Some ''Food'', Some ''Refund''])
     = [Some ''Shop'']"
  using date_filter_inclusive [of "load ledger" "(2024, 1, 20)" "(2024, 2, 1)"
      "[Some ''Food'', Some ''Rent'']" "(2024, 2, 10)"]
    date_filter_inclusive [of "load ledger" "(2024, 2, 10)" "(2024, 2, 10)"
      "[Some ''Food'', Some ''Refund'']" "(2024, 2, 10)"]
  by (simp add: ledger_loaded)

subsection \<open>Status without a readable amount\<close>

text \<open>
  Claim C10. A row of the file whose amount cell does not read as a number, whose date
  is in the range, whose category is selected and whose status is PENDING or FAILED is
  in \<open>wastefulStatus\<close> after loading, with a NaN amount: the status listing does not
  look at the amount.
\<close>

theorem unreadable_amount_still_reported:
  assumes "r \<in> set rows"
    and "Amount r = NonNumeric txt"
    and "start_date \<le> Date r" and "Date r \<le> end_date"
    and "Category r \<in> set selected_categories"
    and "Status r = Some ''PENDING'' \<or> Status r = Some ''FAILED''"
  shows "load_row r \<in> set (wastefulStatus
            (aggregate argsort (load rows) start_date end_date selected_categories))
     \<and> Amount (load_row r) = None
     \<and> (Date r, Receiver r, None, Status r)
         \<in> set (wasteful_status_columns (wastefulStatus
              (aggregate argsort (load rows) start_date end_date selected_categories)))"
proof -
  let ?ws = "wastefulStatus
      (aggregate argsort (load rows) start_date end_date selected_categories)"
  have fields: "Date (load_row r) = Date r" "Category (load_row r) = Category r"
    "Status (load_row r) = Status r" "Receiver (load_row r) = Receiver r"
    "Amount (load_row r) = None"
    using assms(2) by (simp_all add: load_row_def)
  have "load_row r \<in> set (load rows)"
    using assms(1) by (simp add: load_def)
  then have "load_row r \<in> set (df_filtered (load rows) start_date end_date selected_categories)"
    using assms(3-5) by (simp add: df_filtered_conv fields)
  then have listed: "load_row r \<in> set ?ws"
    using assms(6) by (simp add: aggregate_fields wasteful_status_conv unsettled_def fields)
  then have "(Date (load_row r), Receiver (load_row r), Amount (load_row r),
      Status (load_row r)) \<in> set (wasteful_status_columns ?ws)"
    by (auto simp: wasteful_status_columns_def)
  with listed fields show ?thesis
    by simp
qed

text \<open>The second row of the example ledger: pending, with the amount \<open>n/a\<close>.\<close>

theorem unreadable_amount_still_reported_witness:
  "ledger ! 1 \<in> set ledger
   \<and> Amount (ledger ! 1) = NonNumeric ''n/a''
   \<and> Status (ledger ! 1) = Some ''PENDING''
   \<and> load_row (ledger ! 1) \<in> set (wastefulStatus
        (aggregate stable_argsort (load ledger) (2024, 1, 1) (2024, 12, 31) all_categories))
   \<and> ((2024, 1, 20), Some ''Grocer'', None, Some ''PENDING'')
        \<in> set (wasteful_status_columns (wastefulStatus
        (aggregate stable_argsort (load ledger) (2024, 1, 1) (2024, 12, 31) all_categories)))"
proof -
  have mem: "ledger ! 1 \<in> set ledger"
    by (simp add: ledger_def)
  have row: "Amount (ledger ! 1) = NonNumeric ''n/a''" "Status (ledger ! 1) = Some ''PENDING''"
    "Date (ledger ! 1) = (2024, 1, 20)" "Receiver (ledger ! 1) = Some ''Grocer''"
    "Category (ledger ! 1) = Some ''Food''"
    by (simp_all add: ledger_def csv_def)
  have range: "(2024, 1, 1) \<le> Date (ledger ! 1)" "Date (ledger ! 1) \<le> (2024, 12, 31)"
    unfolding row by simp_all
  have sel: "Category (ledger ! 1) \<in> set all_categories"
    unfolding row by (simp add: all_categories_def)
  have st: "Status (ledger ! 1) = Some ''PENDING'' \<or> Status (ledger ! 1) = Some ''FAILED''"
    using row(2) by simp
  note rep = unreadable_amount_still_reported [OF mem row(1) range sel st,
      of stable_argsort, unfolded row]
  show ?thesis
    by (intro conjI mem row(1) row(2) rep [THEN conjunct1]
        rep [THEN conjunct2, THEN conjunct2])
qed

end
